theory Spec2Isabelle
  imports Main
begin

section \<open>Data model of webapp/go/user_handler.go\<close>

text \<open>
  The handlers of \<^verbatim>\<open>user_handler.go\<close> are linear sequences of calls to the database,
  the session middleware, the clock and the UUID generator. The embedding makes each of
  these an explicit input or an explicit piece of state:
  \<^item> the two tables the handlers touch are the state \<open>db\<close>;
  \<^item> the echo context \<open>c\<close> is a record of what the handler reads from the request;
  \<^item> what the outside world decides for one request (which calls fail, the clocks, the
    UUID drawn) is the record \<open>env\<close>;
  \<^item> what is fixed for a deployment but not written in the sources (the digest of
    \<^verbatim>\<open>crypto/sha512\<close>, the comparison the database uses for text and for an
    integer column against a text parameter) is the record \<open>platform\<close>.
  Every early return of the source is a branch of the model and yields an \<open>outcome\<close>:
  the HTTP response, the store after the request, the cookie written and the log lines.
\<close>

definition defaultSessionIDKey :: string where
  "defaultSessionIDKey = ''SESSIONID''"

subsection \<open>Time\<close>

text \<open>
  A \<^verbatim>\<open>time.Time\<close> is an instant, here the number of nanoseconds since the Unix epoch.
  \<^verbatim>\<open>Unix()\<close> is the number of whole seconds (rounded down), a \<^verbatim>\<open>time.Duration\<close>
  is a number of nanoseconds, and the zero value \<^verbatim>\<open>time.Time{}\<close> is
  January 1 of year 1, 62135596800 seconds before the epoch.
\<close>

type_synonym time = int

definition Second :: int where
  "Second = 1000000000"

definition Minute :: int where
  "Minute = 60 * Second"

definition Time_Add :: "time \<Rightarrow> int \<Rightarrow> time" where
  "Time_Add t d = t + d"

definition Time_Unix :: "time \<Rightarrow> int" where
  "Time_Unix t = t div Second"

definition zero_time :: time where
  "zero_time = - 62135596800 * Second"

subsection \<open>Structs (lines 21-53)\<close>

record User =
  ID :: int
  Name :: string
  DisplayName :: string
  Description :: string
  Password :: string
  CreatedAt :: time
  UpdatedAt :: time

record Session =
  ID :: string
  UserID :: int
  Expires :: int

record PostUserRequest =
  Name :: string
  DisplayName :: string
  Description :: string
  Password :: string

record LoginRequest =
  UserName :: string
  Password :: string

subsection \<open>Errors, responses, the echo context\<close>

text \<open>
  The calls of a handler that can fail for reasons outside the program (a lost
  connection, a full disk, a cookie store that cannot write), one name per call site.
\<close>

datatype call =
    AtBeginTxx
  | AtInsertUser
  | AtCommit
  | AtSelectUserByName
  | AtInsertSession
  | AtSessionSave
  | AtSelectSession
  | AtDeleteSession
  | AtSelectProfile

datatype error =
    ErrNoRows
  | ErrDuplicateEntry
  | ErrNoSuchTable
  | ErrSessionGet
  | ErrFailed call

text \<open>
  The message of an \<^verbatim>\<open>echo.NewHTTPError\<close> is either a literal of the source or
  \<^verbatim>\<open>err.Error()\<close> of the error that was returned.
\<close>

datatype message = Text string | ErrorText error

definition StatusOK :: int where "StatusOK = 200"
definition StatusCreated :: int where "StatusCreated = 201"
definition StatusBadRequest :: int where "StatusBadRequest = 400"
definition StatusUnauthorized :: int where "StatusUnauthorized = 401"
definition StatusForbidden :: int where "StatusForbidden = 403"
definition StatusInternalServerError :: int where "StatusInternalServerError = 500"

datatype response =
    HTTPError int message
  | JSON int User
  | NoContent int

text \<open>
  What a handler reads from \<^verbatim>\<open>c echo.Context\<close>: the request body as the JSON decoder
  yields it (\<open>None\<close> when decoding fails), the result of
  \<^verbatim>\<open>session.Get(defaultSessionIDKey, c)\<close> (an error, or the values of the session the
  request's cookie carries; a request without the cookie gives a session with no values),
  and the path parameters (\<^verbatim>\<open>c.Param\<close> gives the empty string for a missing one).
\<close>

record 'b Context =
  Body :: "'b option"
  SessionGet :: "error + (string \<rightharpoonup> string)"
  Param :: "string \<Rightarrow> string"

text \<open>The cookie \<^verbatim>\<open>sess.Save\<close> writes: the session's values and its options.\<close>

record cookie =
  Values :: "string \<rightharpoonup> string"
  MaxAge :: int
  Path :: string

record platform =
  sha512_hex :: "string \<Rightarrow> string"
  collate :: "string \<Rightarrow> string"
  id_of_param :: "string \<Rightarrow> int option"

record env =
  failing :: "call set"
  now :: time
  db_now :: time
  uuid :: string

subsection \<open>The store\<close>

record db =
  users :: "User list"
  sessions :: "Session list"

definition empty_db :: db where
  "empty_db = \<lparr>users = [], sessions = []\<rparr>"

record outcome =
  response :: response
  store :: db
  set_cookie :: "cookie option"
  logged :: "string list"

definition reply :: "response \<Rightarrow> db \<Rightarrow> outcome" where
  "reply r d = \<lparr>response = r, store = d, set_cookie = None, logged = []\<rparr>"

definition attempt :: "env \<Rightarrow> call \<Rightarrow> (error + 'a) \<Rightarrow> error + 'a" where
  "attempt e k r = (if k \<in> failing e then Inl (ErrFailed k) else r)"

text \<open>
  The SQL statements are literals of the source; the schema they run against is not part
  of the sources. Section 6 of the specification gives it as
  \<^verbatim>\<open>users(id, name UNIQUE, display_name, description, password, created_at, updated_at)\<close>
  and \<^verbatim>\<open>sessions(id PK, user_id, expires)\<close>, and the source relies on the unique
  name (the comment at line 106). The tables are lists in insertion order. A text
  comparison \<^verbatim>\<open>col = ?\<close> holds when the two texts have the same collation key
  (\<open>collate\<close>, the identity for a binary collation); an integer column equals a text
  parameter when \<open>id_of_param\<close> reads the parameter as that integer.
\<close>

text \<open>
  Modelled from the spec: the id the store generates for a new user (the schema is
  missing from the sources). It is one more than the largest id in the table, so the
  first one is 1: the benchmark's pretest fetches user 1 after one registration.
\<close>

definition next_user_id :: "User list \<Rightarrow> int" where
  "next_user_id us = fold max (map User.ID us) 0 + 1"

definition same_text :: "platform \<Rightarrow> string \<Rightarrow> string \<Rightarrow> bool" where
  "same_text pf a b = (collate pf a = collate pf b)"

text \<open>
  Modelled from the spec: the constraints and defaults of table \<open>users\<close> (the schema is
  missing from the sources): \<open>name\<close> is UNIQUE, and the id and both timestamps are
  generated by the store. The statement is
  \<^verbatim>\<open>INSERT INTO users (name, display_name, description, password) VALUES (...)\<close>:
  the four named columns come from the struct, the store fills in the rest.
\<close>

definition insert_user :: "platform \<Rightarrow> env \<Rightarrow> db \<Rightarrow> User \<Rightarrow> error + db" where
  "insert_user pf e d u =
     attempt e AtInsertUser
       (if list_ex (\<lambda>r. same_text pf (User.Name r) (User.Name u)) (users d)
        then Inl ErrDuplicateEntry
        else Inr (d\<lparr>users := users d @
               [\<lparr>User.ID = next_user_id (users d),
                 User.Name = User.Name u,
                 User.DisplayName = User.DisplayName u,
                 User.Description = User.Description u,
                 User.Password = User.Password u,
                 CreatedAt = db_now e,
                 UpdatedAt = db_now e\<rparr>]\<rparr>))"

text \<open>\<^verbatim>\<open>SELECT * FROM users WHERE name = ?\<close> through \<^verbatim>\<open>GetContext\<close>: the first row, or
  \<^verbatim>\<open>sql.ErrNoRows\<close>.\<close>

definition select_user_by_name :: "platform \<Rightarrow> env \<Rightarrow> db \<Rightarrow> string \<Rightarrow> error + User" where
  "select_user_by_name pf e d n =
     attempt e AtSelectUserByName
       (case find (\<lambda>r. same_text pf (User.Name r) n) (users d) of
          None \<Rightarrow> Inl ErrNoRows
        | Some r \<Rightarrow> Inr r)"

text \<open>
  Modelled from the spec: the primary key \<open>id\<close> of table \<open>sessions\<close> (the schema is
  missing from the sources). The statement is
  \<^verbatim>\<open>INSERT INTO sessions (id, user_id, expires) VALUES (...)\<close>.
\<close>

definition insert_session :: "platform \<Rightarrow> env \<Rightarrow> db \<Rightarrow> Session \<Rightarrow> error + db" where
  "insert_session pf e d s =
     attempt e AtInsertSession
       (if list_ex (\<lambda>r. same_text pf (Session.ID r) (Session.ID s)) (sessions d)
        then Inl ErrDuplicateEntry
        else Inr (d\<lparr>sessions := sessions d @ [s]\<rparr>))"

text \<open>
  \<^verbatim>\<open>SELECT user_id, expires FROM sessions where id = ?\<close> scanned into a fresh
  \<^verbatim>\<open>Session{}\<close>: the column \<open>id\<close> is not selected, so the field \<open>ID\<close> keeps its
  zero value, the empty string.
\<close>

definition select_session :: "platform \<Rightarrow> env \<Rightarrow> db \<Rightarrow> string \<Rightarrow> error + Session" where
  "select_session pf e d sid =
     attempt e AtSelectSession
       (case find (\<lambda>r. same_text pf (Session.ID r) sid) (sessions d) of
          None \<Rightarrow> Inl ErrNoRows
        | Some r \<Rightarrow> Inr \<lparr>Session.ID = [], UserID = UserID r, Expires = Expires r\<rparr>)"

text \<open>
  Modelled from the spec: the tables that exist, \<open>users\<close> and \<open>sessions\<close> (the schema is
  missing from the sources). The statement is \<^verbatim>\<open>DELETE FROM <table> WHERE id = :id\<close>
  with the table name as the source spells it; a table the schema does not have makes
  the statement fail.
\<close>

definition delete_by_id :: "platform \<Rightarrow> env \<Rightarrow> db \<Rightarrow> string \<Rightarrow> string \<Rightarrow> error + db" where
  "delete_by_id pf e d table key =
     attempt e AtDeleteSession
       (if table = ''sessions''
        then Inr (d\<lparr>sessions := filter (\<lambda>r. \<not> same_text pf (Session.ID r) key) (sessions d)\<rparr>)
        else if table = ''users''
        then Inr (d\<lparr>users := filter (\<lambda>r. id_of_param pf key \<noteq> Some (User.ID r)) (users d)\<rparr>)
        else Inl ErrNoSuchTable)"

text \<open>
  \<^verbatim>\<open>SELECT name, display_name, description, created_at, updated_at FROM users WHERE id = ?\<close>
  scanned into a fresh \<^verbatim>\<open>User{}\<close>: \<open>ID\<close> and \<open>Password\<close> keep their zero values.
\<close>

definition select_profile :: "platform \<Rightarrow> env \<Rightarrow> db \<Rightarrow> string \<Rightarrow> error + User" where
  "select_profile pf e d userID =
     attempt e AtSelectProfile
       (case find (\<lambda>r. id_of_param pf userID = Some (User.ID r)) (users d) of
          None \<Rightarrow> Inl ErrNoRows
        | Some r \<Rightarrow> Inr \<lparr>User.ID = 0,
                         User.Name = User.Name r,
                         User.DisplayName = User.DisplayName r,
                         User.Description = User.Description r,
                         User.Password = [],
                         CreatedAt = CreatedAt r,
                         UpdatedAt = UpdatedAt r\<rparr>)"

text \<open>
  A transaction works on a copy of the store: \<^verbatim>\<open>Commit\<close> makes the copy the store,
  \<^verbatim>\<open>Rollback\<close> (or a failed commit, or a transaction left open) leaves the store as
  it was.
\<close>

definition BeginTxx :: "env \<Rightarrow> db \<Rightarrow> error + db" where
  "BeginTxx e d = attempt e AtBeginTxx (Inr d)"

definition Commit :: "env \<Rightarrow> db \<Rightarrow> error + db" where
  "Commit e tx = attempt e AtCommit (Inr tx)"

definition Save :: "env \<Rightarrow> cookie \<Rightarrow> error + cookie" where
  "Save e ck = attempt e AtSessionSave (Inr ck)"

section \<open>The handlers\<close>

subsection \<open>userRegisterHandler (lines 57-88)\<close>

definition userRegisterHandler ::
  "platform \<Rightarrow> env \<Rightarrow> db \<Rightarrow> PostUserRequest Context \<Rightarrow> outcome" where
  "userRegisterHandler pf e d c =
     (case Body c of
        None \<Rightarrow>
          reply (HTTPError StatusBadRequest (Text ''failed to decode the request body as json'')) d
      | Some req \<Rightarrow>
          (let hashedPassword = sha512_hex pf (PostUserRequest.Password req);
               user = \<lparr>User.ID = 0,
                       User.Name = PostUserRequest.Name req,
                       User.DisplayName = PostUserRequest.DisplayName req,
                       User.Description = PostUserRequest.Description req,
                       User.Password = hashedPassword,
                       CreatedAt = zero_time,
                       UpdatedAt = zero_time\<rparr>
           in (case BeginTxx e d of
                 Inl err \<Rightarrow> reply (HTTPError StatusInternalServerError (ErrorText err)) d
               | Inr tx \<Rightarrow>
                   (case insert_user pf e tx user of
                      Inl err \<Rightarrow> reply (HTTPError StatusInternalServerError (ErrorText err)) d
                    | Inr tx' \<Rightarrow>
                        (case Commit e tx' of
                           Inl err \<Rightarrow>
                             reply (HTTPError StatusInternalServerError (ErrorText err)) d
                         | Inr d' \<Rightarrow> reply (JSON StatusCreated user) d')))))"

subsection \<open>loginHandler (lines 92-151)\<close>

definition loginHandler ::
  "platform \<Rightarrow> env \<Rightarrow> db \<Rightarrow> LoginRequest Context \<Rightarrow> outcome" where
  "loginHandler pf e d c =
     (case Body c of
        None \<Rightarrow>
          reply (HTTPError StatusBadRequest (Text ''failed to decode the request body as json'')) d
      | Some req \<Rightarrow>
          (case BeginTxx e d of
             Inl err \<Rightarrow> reply (HTTPError StatusInternalServerError (ErrorText err)) d
           | Inr tx \<Rightarrow>
               (case select_user_by_name pf e tx (UserName req) of
                  Inl err \<Rightarrow> reply (HTTPError StatusInternalServerError (ErrorText err)) d
                | Inr user \<Rightarrow>
                    (let hashedPassword = sha512_hex pf (LoginRequest.Password req)
                     in (if UserName req \<noteq> User.Name user \<or> hashedPassword \<noteq> User.Password user
                         then reply (HTTPError StatusUnauthorized
                                       (Text ''invalid username or password'')) d
                         else
                           (let sessionEndAt = Time_Add (now e) (10 * Minute);
                                sessionID = uuid e;
                                userSession = \<lparr>Session.ID = sessionID,
                                                UserID = User.ID user,
                                                Expires = Time_Unix sessionEndAt\<rparr>
                            in (case insert_session pf e tx userSession of
                                  Inl err \<Rightarrow>
                                    reply (HTTPError StatusInternalServerError (ErrorText err)) d
                                | Inr tx' \<Rightarrow>
                                    (case Commit e tx' of
                                       Inl err \<Rightarrow>
                                         reply (HTTPError StatusInternalServerError
                                                  (ErrorText err)) d
                                     | Inr d' \<Rightarrow>
                                         (case SessionGet c of
                                            Inl err \<Rightarrow>
                                              reply (HTTPError StatusInternalServerError
                                                       (ErrorText err)) d'
                                          | Inr vals \<Rightarrow>
                                              (let sess =
                                                     \<lparr>Values = vals(defaultSessionIDKey \<mapsto>
                                                                 Session.ID userSession),
                                                      MaxAge = 600,
                                                      Path = ''/''\<rparr>
                                               in (case Save e sess of
                                                     Inl err \<Rightarrow>
                                                       reply (HTTPError StatusInternalServerError
                                                                (ErrorText err)) d'
                                                   | Inr written \<Rightarrow>
                                                       \<lparr>response = NoContent StatusOK,
                                                        store = d',
                                                        set_cookie = Some written,
                                                        logged = []\<rparr>)))))))))))"

subsection \<open>userHandler (lines 155-194)\<close>

definition userHandler :: "platform \<Rightarrow> env \<Rightarrow> db \<Rightarrow> 'b Context \<Rightarrow> outcome" where
  "userHandler pf e d c =
     (case SessionGet c of
        Inl err \<Rightarrow> reply (HTTPError StatusInternalServerError (ErrorText err)) d
      | Inr vals \<Rightarrow>
          (case vals defaultSessionIDKey of
             None \<Rightarrow> reply (HTTPError StatusForbidden (Text [])) d
           | Some sessionID \<Rightarrow>
               (case select_session pf e d sessionID of
                  Inl err \<Rightarrow> reply (HTTPError StatusForbidden (Text [])) d
                | Inr userSession \<Rightarrow>
                    (if Time_Unix (now e) > Expires userSession
                     then (case delete_by_id pf e d ''sessoins'' (Session.ID userSession) of
                             Inl err \<Rightarrow>
                               \<lparr>response =
                                  HTTPError StatusUnauthorized (Text ''session has expired''),
                                store = d,
                                set_cookie = None,
                                logged = [''failed to delete the session info from DB'']\<rparr>
                           | Inr d' \<Rightarrow>
                               reply (HTTPError StatusUnauthorized
                                        (Text ''session has expired'')) d')
                     else
                       (let userID = Param c ''user_id''
                        in (case select_profile pf e d userID of
                              Inl err \<Rightarrow>
                                reply (HTTPError StatusUnauthorized
                                         (Text ''session has expired'')) d
                            | Inr user \<Rightarrow> reply (JSON StatusOK user) d))))))"

section \<open>What the client receives, and sequences of requests\<close>

text \<open>
  \<^verbatim>\<open>c.JSON(code, user)\<close> writes the struct through \<^verbatim>\<open>encoding/json\<close>. \<open>User\<close>
  (lines 21-31) carries \<^verbatim>\<open>db\<close> tags only and no \<^verbatim>\<open>json\<close> tag, so every exported
  field is written, under its Go name and in declaration order.
\<close>

datatype json_value = JInt int | JString string | JTime time

definition marshal_User :: "User \<Rightarrow> (string \<times> json_value) list" where
  "marshal_User u =
     [(''ID'', JInt (User.ID u)),
      (''Name'', JString (User.Name u)),
      (''DisplayName'', JString (User.DisplayName u)),
      (''Description'', JString (User.Description u)),
      (''Password'', JString (User.Password u)),
      (''CreatedAt'', JTime (CreatedAt u)),
      (''UpdatedAt'', JTime (UpdatedAt u))]"

text \<open>
  No two rows of \<open>users\<close> have the same name, as the database compares names. Names
  with different collation keys are different texts, so this is at least uniqueness of
  the names as written.
\<close>

definition names_unique :: "platform \<Rightarrow> db \<Rightarrow> bool" where
  "names_unique pf d = distinct (map (\<lambda>u. collate pf (User.Name u)) (users d))"

text \<open>
  The three implemented endpoints, each request with the environment it meets, and the
  store after serving a request or a list of them in order.
\<close>

datatype request =
    Register env "PostUserRequest Context"
  | Login env "LoginRequest Context"
  | GetUser env "unit Context"

definition serve :: "platform \<Rightarrow> db \<Rightarrow> request \<Rightarrow> db" where
  "serve pf d r =
     (case r of
        Register e c \<Rightarrow> store (userRegisterHandler pf e d c)
      | Login e c \<Rightarrow> store (loginHandler pf e d c)
      | GetUser e c \<Rightarrow> store (userHandler pf e d c))"

definition serve_all :: "platform \<Rightarrow> db \<Rightarrow> request list \<Rightarrow> db" where
  "serve_all pf d rs = foldl (serve pf) d rs"

section \<open>The scenario of the benchmark's pretest\<close>

text \<open>
  The pretest of \<^verbatim>\<open>bench/scenario/core_pretest.go\<close> registers user \<open>test\<close> (lines 11-16), logs in (lines 19-22) and fetches
  user 1 (line 26). The values below replay it, with a stand-in digest that prefixes
  the plaintext, a binary collation, and a parameter reader that knows the ids 1 and 2.
\<close>

definition demo_platform :: platform where
  "demo_platform =
     \<lparr>sha512_hex = (\<lambda>s. ''sha512:'' @ s),
      collate = (\<lambda>s. s),
      id_of_param = (\<lambda>s. if s = ''1'' then Some 1 else if s = ''2'' then Some 2 else None)\<rparr>"

definition demo_env :: env where
  "demo_env =
     \<lparr>failing = {}, now = 1700000000 * Second + 5, db_now = 1700000000 * Second,
      uuid = ''u-1''\<rparr>"

definition late_env :: env where
  "late_env =
     \<lparr>failing = {}, now = 1700000650 * Second, db_now = 1700000650 * Second,
      uuid = ''u-3''\<rparr>"

definition pretest_user :: PostUserRequest where
  "pretest_user =
     \<lparr>PostUserRequest.Name = ''test'',
      PostUserRequest.DisplayName = ''test'',
      PostUserRequest.Description = ''blah blah blah'',
      PostUserRequest.Password = ''s3cr3t''\<rparr>"

definition register_ctx :: "PostUserRequest Context" where
  "register_ctx = \<lparr>Body = Some pretest_user, SessionGet = Inr Map.empty, Param = (\<lambda>k. [])\<rparr>"

definition login_ctx :: "string \<Rightarrow> string \<Rightarrow> LoginRequest Context" where
  "login_ctx name password =
     \<lparr>Body = Some \<lparr>UserName = name, LoginRequest.Password = password\<rparr>,
      SessionGet = Inr Map.empty,
      Param = (\<lambda>k. [])\<rparr>"

definition get_ctx :: "string \<Rightarrow> string \<Rightarrow> unit Context" where
  "get_ctx sid uid =
     \<lparr>Body = None,
      SessionGet = Inr [defaultSessionIDKey \<mapsto> sid],
      Param = (\<lambda>k. if k = ''user_id'' then uid else [])\<rparr>"

definition anonymous_ctx :: "string \<Rightarrow> unit Context" where
  "anonymous_ctx uid =
     \<lparr>Body = None,
      SessionGet = Inr Map.empty,
      Param = (\<lambda>k. if k = ''user_id'' then uid else [])\<rparr>"

definition returned_test :: User where
  "returned_test =
     \<lparr>User.ID = 0, User.Name = ''test'', User.DisplayName = ''test'',
      User.Description = ''blah blah blah'', User.Password = ''sha512:s3cr3t'',
      CreatedAt = zero_time, UpdatedAt = zero_time\<rparr>"

definition row_test :: User where
  "row_test =
     \<lparr>User.ID = 1, User.Name = ''test'', User.DisplayName = ''test'',
      User.Description = ''blah blah blah'', User.Password = ''sha512:s3cr3t'',
      CreatedAt = 1700000000 * Second, UpdatedAt = 1700000000 * Second\<rparr>"

definition row_other :: User where
  "row_other =
     \<lparr>User.ID = 2, User.Name = ''other'', User.DisplayName = ''Other'',
      User.Description = ''second user'', User.Password = ''sha512:hunter2'',
      CreatedAt = 1700000100 * Second, UpdatedAt = 1700000100 * Second\<rparr>"

definition db_registered :: db where
  "db_registered = \<lparr>users = [row_test], sessions = []\<rparr>"

definition db_two :: db where
  "db_two =
     \<lparr>users = [row_test, row_other],
      sessions = [\<lparr>Session.ID = ''u-1'', UserID = 1, Expires = 1700000600\<rparr>,
                  \<lparr>Session.ID = ''u-2'', UserID = 2, Expires = 1700000700\<rparr>]\<rparr>"

section \<open>Facts about the store and the handlers\<close>

lemmas status_defs =
  StatusOK_def StatusCreated_def StatusBadRequest_def StatusUnauthorized_def
  StatusForbidden_def StatusInternalServerError_def

lemmas store_defs =
  attempt_def insert_user_def select_user_by_name_def insert_session_def select_session_def
  delete_by_id_def select_profile_def BeginTxx_def Commit_def Save_def same_text_def
  next_user_id_def

lemmas time_defs = Time_Unix_def Time_Add_def Minute_def Second_def zero_time_def

lemmas demo_defs =
  demo_platform_def demo_env_def late_env_def pretest_user_def register_ctx_def login_ctx_def
  get_ctx_def anonymous_ctx_def returned_test_def row_test_def row_other_def db_registered_def
  db_two_def empty_db_def defaultSessionIDKey_def

lemma ten_minutes_later: "Time_Unix (Time_Add t (10 * Minute)) = Time_Unix t + 600"
  by (simp add: Time_Unix_def Time_Add_def Minute_def Second_def)

text \<open>A registration that answers with JSON went through every step.\<close>

lemma register_created:
  assumes "response (userRegisterHandler pf e d c) = JSON code u"
  shows "\<exists>req. Body c = Some req \<and>
           userRegisterHandler pf e d c =
             reply (JSON StatusCreated
                \<lparr>User.ID = 0,
                 User.Name = PostUserRequest.Name req,
                 User.DisplayName = PostUserRequest.DisplayName req,
                 User.Description = PostUserRequest.Description req,
                 User.Password = sha512_hex pf (PostUserRequest.Password req),
                 CreatedAt = zero_time,
                 UpdatedAt = zero_time\<rparr>)
               (d\<lparr>users := users d @
                 [\<lparr>User.ID = next_user_id (users d),
                   User.Name = PostUserRequest.Name req,
                   User.DisplayName = PostUserRequest.DisplayName req,
                   User.Description = PostUserRequest.Description req,
                   User.Password = sha512_hex pf (PostUserRequest.Password req),
                   CreatedAt = db_now e,
                   UpdatedAt = db_now e\<rparr>]\<rparr>)"
  using assms
  unfolding userRegisterHandler_def Let_def BeginTxx_def Commit_def insert_user_def attempt_def
  by (auto simp: reply_def split: option.splits sum.splits if_splits)

text \<open>A login that answers without content went through every step.\<close>

lemma login_succeeded:
  assumes "response (loginHandler pf e d c) = NoContent code"
  shows "\<exists>req user vals. Body c = Some req \<and>
           select_user_by_name pf e d (UserName req) = Inr user \<and>
           SessionGet c = Inr vals \<and>
           loginHandler pf e d c =
             \<lparr>response = NoContent StatusOK,
              store = d\<lparr>sessions := sessions d @
                 [\<lparr>Session.ID = uuid e, UserID = User.ID user,
                   Expires = Time_Unix (Time_Add (now e) (10 * Minute))\<rparr>]\<rparr>,
              set_cookie = Some \<lparr>Values = vals(defaultSessionIDKey \<mapsto> uuid e),
                                  MaxAge = 600, Path = ''/''\<rparr>,
              logged = []\<rparr>"
  using assms
  unfolding loginHandler_def Let_def BeginTxx_def Commit_def Save_def insert_session_def attempt_def
  by (auto simp: reply_def split: option.splits sum.splits if_splits)

lemma register_store:
  "store (userRegisterHandler pf e d c) = d \<or>
   (\<exists>u. insert_user pf e d u = Inr (store (userRegisterHandler pf e d c)))"
  unfolding userRegisterHandler_def Let_def BeginTxx_def Commit_def attempt_def
  by (auto simp: reply_def split: option.splits sum.splits if_splits)

lemma login_store:
  "store (loginHandler pf e d c) = d \<or>
   (\<exists>s. insert_session pf e d s = Inr (store (loginHandler pf e d c)))"
  unfolding loginHandler_def Let_def BeginTxx_def Commit_def Save_def attempt_def
  by (auto simp: reply_def split: option.splits sum.splits if_splits)

text \<open>The schema has no table \<open>sessoins\<close>: a delete from it fails whatever the key.\<close>

lemma delete_misspelt_table:
  "delete_by_id pf e d ''sessoins'' key =
     Inl (if AtDeleteSession \<in> failing e then ErrFailed AtDeleteSession else ErrNoSuchTable)"
  by (simp add: delete_by_id_def attempt_def)

lemma user_store: "store (userHandler pf e d c) = d"
  unfolding userHandler_def Let_def
  by (simp add: reply_def delete_misspelt_table split: option.splits sum.splits)

lemma insert_user_names_unique:
  assumes "names_unique pf d" and "insert_user pf e d u = Inr d'"
  shows "names_unique pf d'"
proof -
  from assms(2)
  have fresh: "\<not> list_ex (\<lambda>r. same_text pf (User.Name r) (User.Name u)) (users d)"
    and d': "map (\<lambda>r. collate pf (User.Name r)) (users d') =
             map (\<lambda>r. collate pf (User.Name r)) (users d) @ [collate pf (User.Name u)]"
    by (auto simp: insert_user_def attempt_def split: if_splits)
  from fresh
  have "collate pf (User.Name u) \<notin> set (map (\<lambda>r. collate pf (User.Name r)) (users d))"
    by (auto simp: list_ex_iff same_text_def)
  with assms(1) show ?thesis
    by (simp add: names_unique_def d')
qed

lemma insert_session_users: "insert_session pf e d s = Inr d' \<Longrightarrow> users d' = users d"
  by (auto simp: insert_session_def attempt_def split: if_splits)

lemma serve_names_unique:
  assumes "names_unique pf d"
  shows "names_unique pf (serve pf d r)"
proof (cases r)
  case (Register e c)
  with assms register_store [of pf e d c] show ?thesis
    by (auto simp: serve_def intro: insert_user_names_unique)
next
  case (Login e c)
  with login_store [of pf e d c] have "users (serve pf d r) = users d"
    by (auto simp: serve_def dest: insert_session_users)
  with assms show ?thesis
    by (simp add: names_unique_def)
next
  case (GetUser e c)
  with assms show ?thesis
    by (simp add: serve_def user_store)
qed

lemma serve_all_names_unique:
  "names_unique pf d \<Longrightarrow> names_unique pf (serve_all pf d rs)"
  unfolding serve_all_def
  by (induction rs arbitrary: d) (simp_all add: serve_names_unique)

lemma distinct_keys_at_most_one:
  "distinct (map f xs) \<Longrightarrow> length (filter (\<lambda>x. f x = k) xs) \<le> 1"
proof (induction xs)
  case Nil
  then show ?case by simp
next
  case (Cons x xs)
  show ?case
  proof (cases "f x = k")
    case True
    with Cons.prems have "filter (\<lambda>x. f x = k) xs = []"
      by (auto simp: filter_empty_conv image_iff)
    with True show ?thesis by simp
  next
    case False
    with Cons show ?thesis by simp
  qed
qed

lemma names_unique_at_most_one:
  assumes "names_unique pf d"
  shows "length (filter (\<lambda>u. User.Name u = n) (users d)) \<le> 1"
proof -
  have "map (\<lambda>u. collate pf (User.Name u)) (users d) =
        map (collate pf) (map User.Name (users d))"
    by simp
  with assms have "distinct (map User.Name (users d))"
    unfolding names_unique_def by (metis distinct_map)
  then show ?thesis
    by (rule distinct_keys_at_most_one)
qed

lemma register_duplicate_fails:
  assumes "Body c = Some req"
      and "list_ex (\<lambda>u. User.Name u = PostUserRequest.Name req) (users d)"
  shows "userRegisterHandler pf e d c =
           reply (HTTPError StatusInternalServerError
                    (ErrorText (if AtBeginTxx \<in> failing e then ErrFailed AtBeginTxx
                                else if AtInsertUser \<in> failing e then ErrFailed AtInsertUser
                                else ErrDuplicateEntry))) d"
proof -
  from assms(2)
  have "list_ex (\<lambda>r. same_text pf (User.Name r) (PostUserRequest.Name req)) (users d)"
    by (force simp: list_ex_iff same_text_def)
  with assms(1) show ?thesis
    unfolding userRegisterHandler_def Let_def BeginTxx_def insert_user_def attempt_def
    by simp
qed

text \<open>The three steps of the pretest, replayed.\<close>

lemma pretest_register:
  "userRegisterHandler demo_platform demo_env empty_db register_ctx =
     reply (JSON StatusCreated returned_test) db_registered"
  by (simp add: userRegisterHandler_def reply_def store_defs time_defs demo_defs Let_def)

lemma pretest_login:
  "loginHandler demo_platform demo_env db_registered (login_ctx ''test'' ''s3cr3t'') =
     \<lparr>response = NoContent StatusOK,
      store = db_registered\<lparr>sessions :=
                [\<lparr>Session.ID = ''u-1'', UserID = 1, Expires = 1700000600\<rparr>]\<rparr>,
      set_cookie = Some \<lparr>Values = [defaultSessionIDKey \<mapsto> ''u-1''], MaxAge = 600, Path = ''/''\<rparr>,
      logged = []\<rparr>"
  by (simp add: loginHandler_def reply_def store_defs time_defs demo_defs Let_def)

lemma pretest_get_user:
  "userHandler demo_platform demo_env db_two (get_ctx ''u-1'' ''1'') =
     reply (JSON StatusOK (row_test\<lparr>User.ID := 0, User.Password := []\<rparr>)) db_two"
  by (simp add: userHandler_def reply_def store_defs time_defs demo_defs Let_def)


section \<open>The claims\<close>

subsection \<open>Register\<close>

text \<open>
  C2 says that a successful registration returns the stored record, with the generated
  id and the timestamps of the store. On the pretest's registration it does not: the
  handler answers with the struct it built from the request, whose id is 0 and whose
  timestamps are the zero time, while the one row the store holds afterwards has id 1
  and the store's clock; the value returned is no row of the store.
\<close>

theorem register_returns_stored_user_counterexample:
  "response (userRegisterHandler demo_platform demo_env empty_db register_ctx) =
     JSON StatusCreated returned_test \<and>
   users (store (userRegisterHandler demo_platform demo_env empty_db register_ctx)) =
     [row_test] \<and>
   User.ID returned_test = 0 \<and>
   User.ID row_test = 1 \<and>
   CreatedAt returned_test \<noteq> CreatedAt row_test \<and>
   returned_test \<notin>
     set (users (store (userRegisterHandler demo_platform demo_env empty_db register_ctx)))"
  by (simp add: pretest_register reply_def db_registered_def returned_test_def row_test_def
        time_defs)

text \<open>
  C2, amended: a successful registration answers 201 with the user value built from the
  request: the submitted name, display name and description, the hex digest of the
  submitted password, id 0 and zero timestamps. The store gains exactly one row, which
  has those same four fields and carries the id and the timestamps the store generated;
  these are not read back into the response.
\<close>

theorem register_returns_request_user:
  assumes "Body c = Some req"
      and "response (userRegisterHandler pf e d c) = JSON code u"
  shows "code = StatusCreated \<and>
         u = \<lparr>User.ID = 0,
              User.Name = PostUserRequest.Name req,
              User.DisplayName = PostUserRequest.DisplayName req,
              User.Description = PostUserRequest.Description req,
              User.Password = sha512_hex pf (PostUserRequest.Password req),
              CreatedAt = zero_time,
              UpdatedAt = zero_time\<rparr> \<and>
         store (userRegisterHandler pf e d c) =
           d\<lparr>users := users d @
               [u\<lparr>User.ID := next_user_id (users d),
                  CreatedAt := db_now e,
                  UpdatedAt := db_now e\<rparr>]\<rparr>"
  using register_created [OF assms(2)] assms
  by (auto simp: reply_def)

theorem register_returns_request_user_witness:
  "Body register_ctx = Some pretest_user \<and>
   response (userRegisterHandler demo_platform demo_env empty_db register_ctx) =
     JSON StatusCreated returned_test \<and>
   returned_test =
     \<lparr>User.ID = 0,
      User.Name = PostUserRequest.Name pretest_user,
      User.DisplayName = PostUserRequest.DisplayName pretest_user,
      User.Description = PostUserRequest.Description pretest_user,
      User.Password = sha512_hex demo_platform (PostUserRequest.Password pretest_user),
      CreatedAt = zero_time,
      UpdatedAt = zero_time\<rparr> \<and>
   store (userRegisterHandler demo_platform demo_env empty_db register_ctx) =
     empty_db\<lparr>users := users empty_db @
        [returned_test\<lparr>User.ID := next_user_id (users empty_db),
                       CreatedAt := db_now demo_env,
                       UpdatedAt := db_now demo_env\<rparr>]\<rparr>"
proof -
  have body: "Body register_ctx = Some pretest_user"
    by (simp add: register_ctx_def)
  have created: "response (userRegisterHandler demo_platform demo_env empty_db register_ctx) =
     JSON StatusCreated returned_test"
    by (simp add: pretest_register reply_def)
  from register_returns_request_user [OF body created] body created
  show ?thesis by simp
qed

text \<open>
  C10: the body of the 201 response of a successful registration is the whole
  \<open>User\<close> struct as \<^verbatim>\<open>encoding/json\<close> writes it, field \<open>Password\<close> included, and the
  value of that field is the hex digest of the plaintext password that was submitted.
\<close>

theorem register_response_discloses_digest:
  assumes "Body c = Some req"
      and "response (userRegisterHandler pf e d c) = JSON code u"
  shows "code = StatusCreated \<and>
         marshal_User u =
           [(''ID'', JInt 0),
            (''Name'', JString (PostUserRequest.Name req)),
            (''DisplayName'', JString (PostUserRequest.DisplayName req)),
            (''Description'', JString (PostUserRequest.Description req)),
            (''Password'', JString (sha512_hex pf (PostUserRequest.Password req))),
            (''CreatedAt'', JTime zero_time),
            (''UpdatedAt'', JTime zero_time)] \<and>
         map_of (marshal_User u) ''Password'' =
           Some (JString (sha512_hex pf (PostUserRequest.Password req)))"
  using register_created [OF assms(2)] assms
  by (auto simp: reply_def marshal_User_def)

theorem register_response_discloses_digest_witness:
  "Body register_ctx = Some pretest_user \<and>
   response (userRegisterHandler demo_platform demo_env empty_db register_ctx) =
     JSON StatusCreated returned_test \<and>
   map_of (marshal_User returned_test) ''Password'' = Some (JString ''sha512:s3cr3t'')"
proof -
  have body: "Body register_ctx = Some pretest_user"
    by (simp add: register_ctx_def)
  have created: "response (userRegisterHandler demo_platform demo_env empty_db register_ctx) =
     JSON StatusCreated returned_test"
    by (simp add: pretest_register reply_def)
  from register_response_discloses_digest [OF body created] body created
  show ?thesis by (simp add: demo_platform_def pretest_user_def)
qed

text \<open>
  C8: when a user with name \<open>n\<close> is in the store, a registration with the same name
  fails with 500 and the text of the storage error (the duplicate-entry error of the
  unique constraint when no call fails) and leaves the store as it was. Every request to
  one of the three endpoints keeps the names unique, so after any sequence of requests,
  registrations included, from a store with unique names or from the empty store, at
  most one user has any given name.
\<close>

theorem register_keeps_names_unique:
  "(Body c = Some req \<and> list_ex (\<lambda>u. User.Name u = PostUserRequest.Name req) (users d)
    \<longrightarrow> (\<exists>err. userRegisterHandler pf e d c =
                 reply (HTTPError StatusInternalServerError (ErrorText err)) d \<and>
               (failing e = {} \<longrightarrow> err = ErrDuplicateEntry))) \<and>
   (names_unique pf d \<longrightarrow> names_unique pf (serve pf d r)) \<and>
   (names_unique pf d \<longrightarrow>
      names_unique pf (serve_all pf d rs) \<and>
      length (filter (\<lambda>u. User.Name u = n) (users (serve_all pf d rs))) \<le> 1) \<and>
   length (filter (\<lambda>u. User.Name u = n) (users (serve_all pf empty_db rs))) \<le> 1"
proof -
  have dup: "\<exists>err. userRegisterHandler pf e d c =
                 reply (HTTPError StatusInternalServerError (ErrorText err)) d \<and>
               (failing e = {} \<longrightarrow> err = ErrDuplicateEntry)"
    if "Body c = Some req" "list_ex (\<lambda>u. User.Name u = PostUserRequest.Name req) (users d)"
    using register_duplicate_fails [OF that, of pf e] by auto
  have step: "names_unique pf (serve pf d r)" if "names_unique pf d"
    using that by (rule serve_names_unique)
  have run: "names_unique pf (serve_all pf d' rs)" if "names_unique pf d'" for d'
    using that by (rule serve_all_names_unique)
  have one: "length (filter (\<lambda>u. User.Name u = n) (users (serve_all pf d' rs))) \<le> 1"
    if "names_unique pf d'" for d'
    using run [OF that] by (rule names_unique_at_most_one)
  have "names_unique pf empty_db"
    by (simp add: names_unique_def empty_db_def)
  with dup step run one show ?thesis
    by blast
qed

theorem register_keeps_names_unique_witness:
  "Body register_ctx = Some pretest_user \<and>
   list_ex (\<lambda>u. User.Name u = PostUserRequest.Name pretest_user) (users db_registered) \<and>
   failing demo_env = {} \<and>
   userRegisterHandler demo_platform demo_env db_registered register_ctx =
     reply (HTTPError StatusInternalServerError (ErrorText ErrDuplicateEntry)) db_registered \<and>
   names_unique demo_platform db_registered \<and>
   names_unique demo_platform
     (serve_all demo_platform db_registered
        [Register demo_env register_ctx, Register late_env register_ctx]) \<and>
   length (filter (\<lambda>u. User.Name u = ''test'')
     (users (serve_all demo_platform empty_db
        [Register demo_env register_ctx, Register late_env register_ctx]))) \<le> 1 \<and>
   users (serve_all demo_platform empty_db
        [Register demo_env register_ctx, Register late_env register_ctx]) = [row_test]"
proof -
  have body: "Body register_ctx = Some pretest_user"
    by (simp add: register_ctx_def)
  have taken: "list_ex (\<lambda>u. User.Name u = PostUserRequest.Name pretest_user) (users db_registered)"
    by (simp add: demo_defs)
  have quiet: "failing demo_env = {}"
    by (simp add: demo_env_def)
  have uniq: "names_unique demo_platform db_registered"
    by (simp add: names_unique_def demo_defs)
  have again: "userRegisterHandler demo_platform late_env db_registered register_ctx =
     reply (HTTPError StatusInternalServerError (ErrorText ErrDuplicateEntry)) db_registered"
    by (simp add: userRegisterHandler_def reply_def store_defs time_defs demo_defs Let_def)
  have "serve_all demo_platform empty_db
        [Register demo_env register_ctx, Register late_env register_ctx] = db_registered"
    by (simp add: serve_all_def serve_def pretest_register again reply_def)
  then have twice: "users (serve_all demo_platform empty_db
        [Register demo_env register_ctx, Register late_env register_ctx]) = [row_test]"
    by (simp add: db_registered_def)
  from register_keeps_names_unique
         [of register_ctx pretest_user db_registered demo_platform demo_env
             "Register demo_env register_ctx"
             "[Register demo_env register_ctx, Register late_env register_ctx]" "''test''"]
       body taken quiet uniq twice
  show ?thesis by auto
qed


subsection \<open>Login\<close>

text \<open>
  C1 says that a login whose username names no user fails with Unauthorized, as a wrong
  password does. The code does not: when no row matches the name and no call fails,
  \<^verbatim>\<open>GetContext\<close> returns \<^verbatim>\<open>sql.ErrNoRows\<close> and the early return of lines 107-109
  answers 500 with the text of that error, before the comparison of line 112 (whose 401
  says ``invalid username or password'') is reached.
\<close>

theorem login_unknown_username_internal_error:
  assumes "Body c = Some req"
      and "failing e = {}"
      and "find (\<lambda>r. same_text pf (User.Name r) (UserName req)) (users d) = None"
  shows "loginHandler pf e d c =
           reply (HTTPError StatusInternalServerError (ErrorText ErrNoRows)) d"
  using assms
  unfolding loginHandler_def BeginTxx_def select_user_by_name_def attempt_def
  by simp

theorem login_unknown_username_internal_error_witness:
  "loginHandler demo_platform demo_env db_registered (login_ctx ''nobody'' ''s3cr3t'') =
     reply (HTTPError StatusInternalServerError (ErrorText ErrNoRows)) db_registered \<and>
   loginHandler demo_platform demo_env db_registered (login_ctx ''test'' ''guess'') =
     reply (HTTPError StatusUnauthorized (Text ''invalid username or password'')) db_registered"
proof -
  have body: "Body (login_ctx ''nobody'' ''s3cr3t'') =
                Some \<lparr>UserName = ''nobody'', LoginRequest.Password = ''s3cr3t''\<rparr>"
    by (simp add: login_ctx_def)
  have quiet: "failing demo_env = {}"
    by (simp add: demo_env_def)
  have absent: "find (\<lambda>r. same_text demo_platform (User.Name r)
                  (UserName \<lparr>UserName = ''nobody'', LoginRequest.Password = ''s3cr3t''\<rparr>))
                  (users db_registered) = None"
    by (simp add: same_text_def demo_defs)
  have wrong: "loginHandler demo_platform demo_env db_registered (login_ctx ''test'' ''guess'') =
     reply (HTTPError StatusUnauthorized (Text ''invalid username or password'')) db_registered"
    by (simp add: loginHandler_def reply_def store_defs demo_defs Let_def)
  from login_unknown_username_internal_error [OF body quiet absent] wrong
  show ?thesis by simp
qed

text \<open>
  C7: when the lookup of the user succeeds, the handler compares the submitted username
  with the stored name and the digest of the submitted password with the stored hash. A
  mismatch on either makes the login fail with Unauthorized and leaves the store as it
  was; and whenever the login answers Unauthorized, one of the two did not match, so the
  handler goes on past the check only when both match.
\<close>

theorem login_credential_check:
  assumes "Body c = Some req"
      and "BeginTxx e d = Inr tx"
      and "select_user_by_name pf e tx (UserName req) = Inr user"
  shows "(UserName req \<noteq> User.Name user \<or>
            sha512_hex pf (LoginRequest.Password req) \<noteq> User.Password user
          \<longrightarrow> loginHandler pf e d c =
                reply (HTTPError StatusUnauthorized (Text ''invalid username or password'')) d) \<and>
         ((\<exists>m. response (loginHandler pf e d c) = HTTPError StatusUnauthorized m)
          \<longrightarrow> UserName req \<noteq> User.Name user \<or>
                sha512_hex pf (LoginRequest.Password req) \<noteq> User.Password user)"
  using assms
  unfolding loginHandler_def Let_def
  by (auto simp: reply_def status_defs split: sum.splits)

theorem login_credential_check_witness:
  "Body (login_ctx ''test'' ''guess'') =
     Some \<lparr>UserName = ''test'', LoginRequest.Password = ''guess''\<rparr> \<and>
   BeginTxx demo_env db_registered = Inr db_registered \<and>
   select_user_by_name demo_platform demo_env db_registered ''test'' = Inr row_test \<and>
   sha512_hex demo_platform ''guess'' \<noteq> User.Password row_test \<and>
   loginHandler demo_platform demo_env db_registered (login_ctx ''test'' ''guess'') =
     reply (HTTPError StatusUnauthorized (Text ''invalid username or password'')) db_registered"
proof -
  have body: "Body (login_ctx ''test'' ''guess'') =
                Some \<lparr>UserName = ''test'', LoginRequest.Password = ''guess''\<rparr>"
    by (simp add: login_ctx_def)
  have tx: "BeginTxx demo_env db_registered = Inr db_registered"
    by (simp add: BeginTxx_def attempt_def demo_env_def)
  have found: "select_user_by_name demo_platform demo_env db_registered
                 (UserName \<lparr>UserName = ''test'', LoginRequest.Password = ''guess''\<rparr>) = Inr row_test"
    by (simp add: store_defs demo_defs)
  have differs: "sha512_hex demo_platform ''guess'' \<noteq> User.Password row_test"
    by (simp add: demo_defs)
  from login_credential_check [OF body tx found] body tx found differs
  show ?thesis by simp
qed

text \<open>
  C6: a successful login at time \<open>now\<close> adds exactly one session row; its expiry is the
  UNIX time of \<open>now\<close> plus ten minutes, that is the UNIX time of \<open>now\<close> plus 600; and
  the cookie written carries that row's identifier under the session key, with path
  \<open>/\<close> and max-age 600.
\<close>

theorem login_session_expiry_and_cookie:
  assumes "response (loginHandler pf e d c) = NoContent code"
  shows "\<exists>row ck.
           store (loginHandler pf e d c) = d\<lparr>sessions := sessions d @ [row]\<rparr> \<and>
           Session.ID row = uuid e \<and>
           Expires row = Time_Unix (Time_Add (now e) (10 * Minute)) \<and>
           Expires row = Time_Unix (now e) + 600 \<and>
           set_cookie (loginHandler pf e d c) = Some ck \<and>
           Values ck defaultSessionIDKey = Some (Session.ID row) \<and>
           Path ck = ''/'' \<and>
           MaxAge ck = 600 \<and>
           code = StatusOK"
  using login_succeeded [OF assms] assms
  by (auto simp: ten_minutes_later)

theorem login_session_expiry_and_cookie_witness:
  "response (loginHandler demo_platform demo_env db_registered (login_ctx ''test'' ''s3cr3t'')) =
     NoContent StatusOK \<and>
   Time_Unix (now demo_env) = 1700000000 \<and>
   store (loginHandler demo_platform demo_env db_registered (login_ctx ''test'' ''s3cr3t'')) =
     db_registered\<lparr>sessions := [\<lparr>Session.ID = ''u-1'', UserID = 1, Expires = 1700000600\<rparr>]\<rparr> \<and>
   (\<exists>row ck.
      store (loginHandler demo_platform demo_env db_registered (login_ctx ''test'' ''s3cr3t'')) =
        db_registered\<lparr>sessions := sessions db_registered @ [row]\<rparr> \<and>
      Session.ID row = uuid demo_env \<and>
      Expires row = Time_Unix (Time_Add (now demo_env) (10 * Minute)) \<and>
      Expires row = Time_Unix (now demo_env) + 600 \<and>
      set_cookie (loginHandler demo_platform demo_env db_registered (login_ctx ''test'' ''s3cr3t'')) =
        Some ck \<and>
      Values ck defaultSessionIDKey = Some (Session.ID row) \<and>
      Path ck = ''/'' \<and>
      MaxAge ck = 600 \<and>
      StatusOK = StatusOK)"
proof -
  have ok: "response (loginHandler demo_platform demo_env db_registered
              (login_ctx ''test'' ''s3cr3t'')) = NoContent StatusOK"
    by (simp add: pretest_login)
  have clock: "Time_Unix (now demo_env) = 1700000000"
    by (simp add: time_defs demo_env_def)
  have after: "store (loginHandler demo_platform demo_env db_registered
                 (login_ctx ''test'' ''s3cr3t'')) =
     db_registered\<lparr>sessions := [\<lparr>Session.ID = ''u-1'', UserID = 1, Expires = 1700000600\<rparr>]\<rparr>"
    by (simp add: pretest_login)
  from login_session_expiry_and_cookie [OF ok] ok clock after
  show ?thesis by blast
qed


subsection \<open>Authenticate\<close>



text \<open>
  C3 says that, for a session found but past its expiry, the operation attempts to
  delete that session's row before it fails with Unauthorized. On the store \<open>db_two\<close>
  at a time after the expiry of session \<open>u-1\<close>, with no call failing, it does not: the
  \<^verbatim>\<open>SELECT\<close> of line 169 leaves the field \<open>ID\<close> of the fetched struct empty, and the
  statement of line 179 deletes from table \<open>sessoins\<close> the row with that empty id. The
  statement fails because the schema has no such table, the warning is logged, the
  answer is 401 ``session has expired'', and the row is still in the store; a delete
  from \<open>sessions\<close> with the token would have removed it.
\<close>

theorem expired_session_delete_misses_row:
  "select_session demo_platform late_env db_two ''u-1'' =
     Inr \<lparr>Session.ID = [], UserID = 1, Expires = 1700000600\<rparr> \<and>
   Time_Unix (now late_env) = 1700000650 \<and>
   delete_by_id demo_platform late_env db_two ''sessoins'' [] = Inl ErrNoSuchTable \<and>
   userHandler demo_platform late_env db_two (get_ctx ''u-1'' ''1'') =
     \<lparr>response = HTTPError StatusUnauthorized (Text ''session has expired''),
      store = db_two,
      set_cookie = None,
      logged = [''failed to delete the session info from DB'']\<rparr> \<and>
   sessions (store (userHandler demo_platform late_env db_two (get_ctx ''u-1'' ''1''))) =
     [\<lparr>Session.ID = ''u-1'', UserID = 1, Expires = 1700000600\<rparr>,
      \<lparr>Session.ID = ''u-2'', UserID = 2, Expires = 1700000700\<rparr>] \<and>
   delete_by_id demo_platform late_env db_two ''sessions'' ''u-1'' =
     Inr (db_two\<lparr>sessions := [\<lparr>Session.ID = ''u-2'', UserID = 2, Expires = 1700000700\<rparr>]\<rparr>)"
  by (simp add: userHandler_def reply_def store_defs time_defs demo_defs)

text \<open>
  C9: \<open>userHandler\<close> returns the store it was given, in every branch. The delete of
  the expired-session branch names table \<open>sessoins\<close>, which the schema does not have, so
  it fails for every key; on that branch the failure is only logged, the answer is 401,
  and the session's row is still in the table and still found by the same lookup.
\<close>

theorem authenticate_changes_no_store:
  "store (userHandler pf e d c) = d \<and>
   (\<forall>key. \<exists>err. delete_by_id pf e d ''sessoins'' key = Inl err) \<and>
   (SessionGet c = Inr vals \<and> vals defaultSessionIDKey = Some sid \<and>
    select_session pf e d sid = Inr s \<and> Time_Unix (now e) > Expires s
    \<longrightarrow> userHandler pf e d c =
          \<lparr>response = HTTPError StatusUnauthorized (Text ''session has expired''),
           store = d,
           set_cookie = None,
           logged = [''failed to delete the session info from DB'']\<rparr> \<and>
        sessions (store (userHandler pf e d c)) = sessions d \<and>
        select_session pf e (store (userHandler pf e d c)) sid = Inr s)"
proof -
  have "userHandler pf e d c =
          \<lparr>response = HTTPError StatusUnauthorized (Text ''session has expired''),
           store = d,
           set_cookie = None,
           logged = [''failed to delete the session info from DB'']\<rparr>"
    if "SessionGet c = Inr vals" "vals defaultSessionIDKey = Some sid"
       "select_session pf e d sid = Inr s" "Time_Unix (now e) > Expires s"
    using that unfolding userHandler_def
    by (simp add: delete_misspelt_table)
  then show ?thesis
    by (simp add: user_store delete_misspelt_table)
qed

theorem authenticate_changes_no_store_witness:
  "SessionGet (get_ctx ''u-1'' ''1'') = Inr [defaultSessionIDKey \<mapsto> ''u-1''] \<and>
   select_session demo_platform late_env db_two ''u-1'' =
     Inr \<lparr>Session.ID = [], UserID = 1, Expires = 1700000600\<rparr> \<and>
   Time_Unix (now late_env) > 1700000600 \<and>
   store (userHandler demo_platform late_env db_two (get_ctx ''u-1'' ''1'')) = db_two \<and>
   logged (userHandler demo_platform late_env db_two (get_ctx ''u-1'' ''1'')) =
     [''failed to delete the session info from DB''] \<and>
   select_session demo_platform late_env
     (store (userHandler demo_platform late_env db_two (get_ctx ''u-1'' ''1''))) ''u-1'' =
     Inr \<lparr>Session.ID = [], UserID = 1, Expires = 1700000600\<rparr>"
proof -
  have carried: "SessionGet (get_ctx ''u-1'' ''1'') = Inr [defaultSessionIDKey \<mapsto> ''u-1'']"
    by (simp add: get_ctx_def)
  have token: "[defaultSessionIDKey \<mapsto> ''u-1''] defaultSessionIDKey = Some ''u-1''"
    by simp
  have found: "select_session demo_platform late_env db_two ''u-1'' =
     Inr \<lparr>Session.ID = [], UserID = 1, Expires = 1700000600\<rparr>"
    by (simp add: store_defs demo_defs)
  have late: "Time_Unix (now late_env) >
                Expires \<lparr>Session.ID = [], UserID = 1, Expires = 1700000600\<rparr>"
    by (simp add: time_defs late_env_def)
  from authenticate_changes_no_store
         [of demo_platform late_env db_two "get_ctx ''u-1'' ''1''"
             "[defaultSessionIDKey \<mapsto> ''u-1'']" "''u-1''"
             "\<lparr>Session.ID = [], UserID = 1, Expires = 1700000600\<rparr>"]
       carried token found late
  show ?thesis by simp
qed

text \<open>
  C4: take two requests whose sessions are found and not expired and belong to different
  users. If both name the same user id in the path, \<open>userHandler\<close> gives both the same
  outcome, and that outcome is the result of the profile query for the path parameter:
  which user owns the session plays no part.
\<close>

theorem profile_fetch_ignores_session_owner:
  assumes "SessionGet c1 = Inr vals1" and "vals1 defaultSessionIDKey = Some sid1"
      and "select_session pf e d sid1 = Inr s1" and "\<not> Time_Unix (now e) > Expires s1"
      and "SessionGet c2 = Inr vals2" and "vals2 defaultSessionIDKey = Some sid2"
      and "select_session pf e d sid2 = Inr s2" and "\<not> Time_Unix (now e) > Expires s2"
      and "UserID s1 \<noteq> UserID s2"
      and "Param c1 ''user_id'' = Param c2 ''user_id''"
  shows "userHandler pf e d c1 = userHandler pf e d c2 \<and>
         userHandler pf e d c1 =
           (case select_profile pf e d (Param c1 ''user_id'') of
              Inl err \<Rightarrow> reply (HTTPError StatusUnauthorized (Text ''session has expired'')) d
            | Inr user \<Rightarrow> reply (JSON StatusOK user) d)"
  using assms
  unfolding userHandler_def Let_def
  by simp

theorem profile_fetch_ignores_session_owner_witness:
  "select_session demo_platform demo_env db_two ''u-1'' =
     Inr \<lparr>Session.ID = [], UserID = 1, Expires = 1700000600\<rparr> \<and>
   select_session demo_platform demo_env db_two ''u-2'' =
     Inr \<lparr>Session.ID = [], UserID = 2, Expires = 1700000700\<rparr> \<and>
   Time_Unix (now demo_env) = 1700000000 \<and>
   userHandler demo_platform demo_env db_two (get_ctx ''u-1'' ''1'') =
     userHandler demo_platform demo_env db_two (get_ctx ''u-2'' ''1'') \<and>
   userHandler demo_platform demo_env db_two (get_ctx ''u-2'' ''1'') =
     reply (JSON StatusOK (row_test\<lparr>User.ID := 0, User.Password := []\<rparr>)) db_two"
proof -
  have c1: "SessionGet (get_ctx ''u-1'' ''1'') = Inr [defaultSessionIDKey \<mapsto> ''u-1'']"
    and c2: "SessionGet (get_ctx ''u-2'' ''1'') = Inr [defaultSessionIDKey \<mapsto> ''u-2'']"
    by (simp_all add: get_ctx_def)
  have t1: "[defaultSessionIDKey \<mapsto> ''u-1''] defaultSessionIDKey = Some ''u-1''"
    and t2: "[defaultSessionIDKey \<mapsto> ''u-2''] defaultSessionIDKey = Some ''u-2''"
    by simp_all
  have s1: "select_session demo_platform demo_env db_two ''u-1'' =
     Inr \<lparr>Session.ID = [], UserID = 1, Expires = 1700000600\<rparr>"
    and s2: "select_session demo_platform demo_env db_two ''u-2'' =
     Inr \<lparr>Session.ID = [], UserID = 2, Expires = 1700000700\<rparr>"
    by (simp_all add: store_defs demo_defs)
  have clock: "Time_Unix (now demo_env) = 1700000000"
    by (simp add: time_defs demo_env_def)
  have v1: "\<not> Time_Unix (now demo_env) >
              Expires \<lparr>Session.ID = [], UserID = 1, Expires = 1700000600\<rparr>"
    and v2: "\<not> Time_Unix (now demo_env) >
              Expires \<lparr>Session.ID = [], UserID = 2, Expires = 1700000700\<rparr>"
    by (simp_all add: clock)
  have owners: "UserID \<lparr>Session.ID = [], UserID = 1, Expires = 1700000600\<rparr> \<noteq>
                UserID \<lparr>Session.ID = [], UserID = 2, Expires = 1700000700\<rparr>"
    by simp
  have path: "Param (get_ctx ''u-1'' ''1'') ''user_id'' = Param (get_ctx ''u-2'' ''1'') ''user_id''"
    by (simp add: get_ctx_def)
  from profile_fetch_ignores_session_owner [OF c1 t1 s1 v1 c2 t2 s2 v2 owners path]
       s1 s2 clock pretest_get_user
  show ?thesis by simp
qed


end
